theory Spec2Isabelle
  imports Main "HOL-Library.Sublist"
begin

section \<open>Python values, classes and exceptions\<close>

text \<open>
  A class is its qualified name and its direct bases. \<open>issubclass\<close> walks the bases, as
  Python's \<open>issubclass\<close> walks the method resolution order; classes are compared
  structurally (name and bases), which stands for Python's identity of class objects.
\<close>

datatype pyclass = PyClass (class_name: string) (class_bases: "pyclass list")

fun issubclass :: "pyclass \<Rightarrow> pyclass \<Rightarrow> bool" where
  "issubclass (PyClass n bs) S = (PyClass n bs = S \<or> list_ex (\<lambda>b. issubclass b S) bs)"

definition object_cls :: pyclass where
  "object_cls = PyClass ''object'' []"

definition NoneType_cls :: pyclass where
  "NoneType_cls = PyClass ''NoneType'' [object_cls]"

definition int_cls :: pyclass where
  "int_cls = PyClass ''int'' [object_cls]"

definition bool_cls :: pyclass where
  "bool_cls = PyClass ''bool'' [int_cls]"

definition str_cls :: pyclass where
  "str_cls = PyClass ''str'' [object_cls]"

definition PurePath_cls :: pyclass where
  "PurePath_cls = PyClass ''pathlib.PurePath'' [object_cls]"

definition Path_cls :: pyclass where
  "Path_cls = PyClass ''pathlib.Path'' [PurePath_cls]"

definition PosixPath_cls :: pyclass where
  "PosixPath_cls = PyClass ''pathlib.PosixPath'' [Path_cls]"

text \<open>
  The values the orchestrator handles: \<open>None\<close>, booleans, integers, strings,
  \<open>pathlib.Path\<close> objects, and instances of other classes (an instance carries its class
  and its attributes).
\<close>

datatype pyval =
    PyNone
  | PyBool bool
  | PyInt int
  | PyStr string
  | PyPath string
  | PyInstance pyclass "(string \<times> string) list"

fun type_of :: "pyval \<Rightarrow> pyclass" where
  "type_of PyNone = NoneType_cls"
| "type_of (PyBool b) = bool_cls"
| "type_of (PyInt i) = int_cls"
| "type_of (PyStr s) = str_cls"
| "type_of (PyPath p) = PosixPath_cls"
| "type_of (PyInstance c attrs) = c"

definition isinstance :: "pyval \<Rightarrow> pyclass \<Rightarrow> bool" where
  "isinstance v S = issubclass (type_of v) S"

text \<open>
  Truth value testing, as \<open>if baml_dir:\<close> performs it. \<open>None\<close>, \<open>False\<close>, zero and the
  empty string are false. \<open>pathlib\<close>'s path classes define neither \<open>__bool__\<close> nor
  \<open>__len__\<close>, so every path object is true, \<open>Path("")\<close> included; so is an instance of
  a class that defines neither.
\<close>

fun truthy :: "pyval \<Rightarrow> bool" where
  "truthy PyNone = False"
| "truthy (PyBool b) = b"
| "truthy (PyInt i) = (i \<noteq> 0)"
| "truthy (PyStr s) = (s \<noteq> [])"
| "truthy (PyPath p) = True"
| "truthy (PyInstance c attrs) = True"

text \<open>\<open>str\<close> of a class object, which is what \<open>{type(result)}\<close> and \<open>{schema}\<close> format to.\<close>

definition class_str :: "pyclass \<Rightarrow> string" where
  "class_str c = ''<class '' @ [CHR 0x27] @ class_name c @ [CHR 0x27] @ ''>''"

text \<open>
  An exception object: its class, \<open>str(e)\<close> (what \<open>{e}\<close> formats to) and its
  \<open>__cause__\<close>.
\<close>

datatype pyexc = PyExc (exc_type: pyclass) (exc_str: string) (exc_cause: "pyexc option")

definition BaseException_cls :: pyclass where
  "BaseException_cls = PyClass ''BaseException'' [object_cls]"

definition Exception_cls :: pyclass where
  "Exception_cls = PyClass ''Exception'' [BaseException_cls]"

definition RuntimeError_cls :: pyclass where
  "RuntimeError_cls = PyClass ''RuntimeError'' [Exception_cls]"

definition KeyboardInterrupt_cls :: pyclass where
  "KeyboardInterrupt_cls = PyClass ''KeyboardInterrupt'' [BaseException_cls]"


text \<open>
  Modelled from the spec: the class \<open>ExtractionError\<close> of \<open>inquire.exceptions\<close>, which
  \<open>core.py\<close> imports and whose declaration is not among the sources. The spec's error
  taxonomy makes it an error class raised with a message; it is taken as a subclass of
  \<open>Exception\<close> whose \<open>str\<close> is the message it was raised with.
\<close>

definition ExtractionError_cls :: pyclass where
  "ExtractionError_cls = PyClass ''inquire.exceptions.ExtractionError'' [Exception_cls]"

text \<open>\<open>except Exception as e\<close> catches \<open>e\<close> exactly when its class derives from \<open>Exception\<close>.\<close>

definition caught_by_except_Exception :: "pyexc \<Rightarrow> bool" where
  "caught_by_except_Exception e = issubclass (exc_type e) Exception_cls"

section \<open>The orchestrator\<close>

text \<open>\<open>Researcher._run_research\<close>: the placeholder template.\<close>

definition run_research :: "string \<Rightarrow> string" where
  "run_research instructions = ''[Research output for: '' @ instructions @ '']''"

text \<open>
  A BAML function: a callable, named so that the manager can recognise it. Calling and
  awaiting it on a text either raises or returns a value.
\<close>

record baml_function =
  fn_name :: string
  fn_call :: "string \<Rightarrow> pyexc + pyval"

text \<open>
  The class \<open>BamlManager\<close> of \<open>inquire.baml_manager\<close> is imported by \<open>core.py\<close> and is not
  among the sources. The orchestrator is modelled for any manager: \<open>'m\<close> is the manager's
  state, \<open>mgr_init\<close> is \<open>await self.baml_manager.init()\<close> (it may raise, and it may change
  the manager), \<open>mgr_verify_function\<close> is \<open>self.baml_manager.verify_function(f)\<close> (it may
  raise; \<open>research\<close> discards what it returns).
\<close>

record 'm manager_ops =
  mgr_init :: "'m \<Rightarrow> pyexc option \<times> 'm"
  mgr_verify_function :: "'m \<Rightarrow> baml_function \<Rightarrow> pyexc + bool"

text \<open>The calls \<open>research\<close> makes to its collaborators, in the order it makes them.\<close>

datatype event =
    InitCalled
  | VerifyFunctionCalled string
  | RunResearchCalled string
  | BamlFunctionCalled string

text \<open>
  Modelled from the spec: the class \<open>ResearchConfig\<close> of \<open>inquire.config\<close>, which is not among
  the sources. The spec's data model gives it a schema location (\<open>baml_dir\<close>, an attribute
  that \<open>Researcher.__init__\<close> reads and assigns) and an open mapping of further settings.
\<close>

record research_config =
  baml_dir :: pyval
  settings :: "string \<rightharpoonup> pyval"

record 'm researcher =
  config :: research_config
  baml_manager :: 'm

text \<open>One run of \<open>research\<close>: what it returns or raises, the orchestrator afterwards, the calls made.\<close>

record 'm run =
  outcome :: "pyexc + pyval"
  researcher_after :: "'m researcher"
  calls :: "event list"

text \<open>
  The body of \<open>Researcher.research\<close>. The method \<open>self._run_research\<close> resolves to is the
  parameter \<open>backend\<close> (a subclass may override it; a backend may raise).
\<close>

definition research_body ::
  "(string \<Rightarrow> pyexc + string) \<Rightarrow> 'm manager_ops \<Rightarrow> 'm researcher \<Rightarrow>
   string \<Rightarrow> pyclass \<Rightarrow> baml_function \<Rightarrow> 'm run" where
  "research_body backend ops self research_instructions schema f =
     (case mgr_init ops (baml_manager self) of
        (Some e, m) \<Rightarrow>
          \<lparr>outcome = Inl e, researcher_after = self\<lparr>baml_manager := m\<rparr>, calls = [InitCalled]\<rparr>
      | (None, m) \<Rightarrow>
         (let self1 = self\<lparr>baml_manager := m\<rparr>;
              c2 = [InitCalled, VerifyFunctionCalled (fn_name f)]
          in case mgr_verify_function ops m f of
               Inl e \<Rightarrow> \<lparr>outcome = Inl e, researcher_after = self1, calls = c2\<rparr>
             | Inr ok \<Rightarrow>
                (let c3 = c2 @ [RunResearchCalled research_instructions]
                 in case backend research_instructions of
                      Inl e \<Rightarrow> \<lparr>outcome = Inl e, researcher_after = self1, calls = c3\<rparr>
                    | Inr research_output \<Rightarrow>
                       (let c4 = c3 @ [BamlFunctionCalled research_output]
                        in case fn_call f research_output of
                             Inl e \<Rightarrow>
                               (if caught_by_except_Exception e
                                then \<lparr>outcome = Inl (PyExc ExtractionError_cls
                                                      (''BAML extraction failed: '' @ exc_str e) (Some e)),
                                      researcher_after = self1, calls = c4\<rparr>
                                else \<lparr>outcome = Inl e, researcher_after = self1, calls = c4\<rparr>)
                           | Inr result \<Rightarrow>
                               (if \<not> isinstance result schema
                                then \<lparr>outcome = Inl (PyExc ExtractionError_cls
                                                      (''BAML function returned '' @ class_str (type_of result)
                                                       @ '', expected '' @ class_str schema) None),
                                      researcher_after = self1, calls = c4\<rparr>
                                else \<lparr>outcome = Inr result, researcher_after = self1, calls = c4\<rparr>)))))"

text \<open>\<open>Researcher.research\<close>, with \<open>_run_research\<close> as the class defines it.\<close>

definition Researcher_research ::
  "'m manager_ops \<Rightarrow> 'm researcher \<Rightarrow> string \<Rightarrow> pyclass \<Rightarrow> baml_function \<Rightarrow> 'm run" where
  "Researcher_research ops self research_instructions schema f =
     research_body (\<lambda>instructions. Inr (run_research instructions)) ops self
       research_instructions schema f"

section \<open>Construction and the module-level function\<close>

text \<open>
  Modelled from the spec: \<open>ResearchConfig.from_dict\<close>, which is not among the sources
  (the spec calls it \<open>from_overrides\<close>): it merges the overrides onto the built-in
  defaults, accepts unknown keys as they are and validates nothing. The defaults are a
  parameter; the key \<open>baml_dir\<close> is the schema location.
\<close>

definition from_dict :: "research_config \<Rightarrow> (string \<rightharpoonup> pyval) \<Rightarrow> research_config" where
  "from_dict defaults overrides =
     \<lparr>baml_dir = (case overrides ''baml_dir'' of Some v \<Rightarrow> v | None \<Rightarrow> baml_dir defaults),
      settings = settings defaults ++ overrides\<rparr>"

text \<open>The value a configuration holds under a key: the location under \<open>baml_dir\<close>, a setting otherwise.\<close>

definition config_get :: "research_config \<Rightarrow> string \<Rightarrow> pyval option" where
  "config_get c k = (if k = ''baml_dir'' then Some (baml_dir c) else settings c k)"

text \<open>\<open>config or {}\<close>: \<open>None\<close> and the empty dict both give the empty dict.\<close>

definition config_or_empty :: "(string \<rightharpoonup> pyval) option \<Rightarrow> (string \<rightharpoonup> pyval)" where
  "config_or_empty cfg = (case cfg of None \<Rightarrow> Map.empty | Some d \<Rightarrow> d)"

text \<open>
  What \<open>Researcher.__init__\<close> takes from the modules that are not among the sources: the
  built-in defaults of \<open>ResearchConfig\<close>, the constructor \<open>BamlManager(baml_dir)\<close>, the check
  \<open>validate_or_raise\<close> (it reads the file system; \<open>Some e\<close> when it raises \<open>e\<close>), and the
  manager's methods.
\<close>

record 'm environment =
  defaults :: research_config
  new_BamlManager :: "pyval \<Rightarrow> 'm"
  validate_or_raise :: "research_config \<Rightarrow> pyexc option"
  manager :: "'m manager_ops"

text \<open>\<open>Researcher.__init__\<close>: the new orchestrator, or the exception validation raises.\<close>

definition Researcher_init ::
  "'m environment \<Rightarrow> pyval \<Rightarrow> (string \<rightharpoonup> pyval) option \<Rightarrow> pyexc + 'm researcher" where
  "Researcher_init env dir cfg =
     (let c0 = from_dict (defaults env) (config_or_empty cfg);
          c1 = (if truthy dir then c0\<lparr>baml_dir := dir\<rparr> else c0);
          m = new_BamlManager env (baml_dir c1)
      in case validate_or_raise env c1 of
           Some e \<Rightarrow> Inl e
         | None \<Rightarrow> Inr \<lparr>config = c1, baml_manager = m\<rparr>)"

text \<open>
  The module-level \<open>research\<close>: \<open>Researcher(config=config)\<close>, then its \<open>research\<close>. The
  result is what the call returns or raises, with the calls made to the collaborators.
\<close>

definition research ::
  "'m environment \<Rightarrow> string \<Rightarrow> pyclass \<Rightarrow> baml_function \<Rightarrow> (string \<rightharpoonup> pyval) option \<Rightarrow>
   (pyexc + pyval) \<times> event list" where
  "research env research_instructions schema f cfg =
     (case Researcher_init env PyNone cfg of
        Inl e \<Rightarrow> (Inl e, [])
      | Inr researcher \<Rightarrow>
          (let r = Researcher_research (manager env) researcher research_instructions schema f
           in (outcome r, calls r)))"

text \<open>
  The spec's side of the comparison, in its words: construct a default orchestrator (no
  location, no overrides: \<open>Researcher()\<close>) and call its method with the same arguments.
\<close>

definition default_orchestrator_research ::
  "'m environment \<Rightarrow> string \<Rightarrow> pyclass \<Rightarrow> baml_function \<Rightarrow> (pyexc + pyval) \<times> event list" where
  "default_orchestrator_research env research_instructions schema f =
     (case Researcher_init env PyNone None of
        Inl e \<Rightarrow> (Inl e, [])
      | Inr default_researcher \<Rightarrow>
          (outcome (Researcher_research (manager env) default_researcher
                      research_instructions schema f),
           calls (Researcher_research (manager env) default_researcher
                    research_instructions schema f)))"

section \<open>The extraction-capability manager of the spec\<close>

text \<open>
  Modelled from the spec: the class \<open>BamlManager\<close>, which is not among the sources. The spec
  gives it two states, uninitialized and ready, and one transition: the first "ensure
  ready" performs the setup, every later one is a no-op. \<open>setups\<close> counts the setups
  performed (the spec's counter on the init step). The setup may fail (\<open>Some e\<close>); the
  manager is then not ready.
\<close>

record baml_manager_state =
  mgr_dir :: pyval
  initialized :: bool
  setups :: nat

text \<open>Modelled from the spec: the constructor \<open>BamlManager(baml_dir)\<close>; a new manager is uninitialized.\<close>

definition BamlManager :: "pyval \<Rightarrow> baml_manager_state" where
  "BamlManager dir = \<lparr>mgr_dir = dir, initialized = False, setups = 0\<rparr>"

text \<open>
  Modelled from the spec: \<open>BamlManager.init\<close>, the "ensure ready" step. \<open>setup\<close> is what the
  setup does when it is performed: \<open>None\<close> when it completes, \<open>Some e\<close> when it raises \<open>e\<close>.
\<close>

definition BamlManager_init ::
  "pyexc option \<Rightarrow> baml_manager_state \<Rightarrow> pyexc option \<times> baml_manager_state" where
  "BamlManager_init setup m =
     (if initialized m then (None, m)
      else case setup of
             None \<Rightarrow> (None, m\<lparr>initialized := True, setups := Suc (setups m)\<rparr>)
           | Some e \<Rightarrow> (Some e, m\<lparr>setups := Suc (setups m)\<rparr>))"

text \<open>
  Modelled from the spec: \<open>BamlManager.verify_function\<close> raises an
  \<open>InvalidFunctionError\<close>-class exception for a function it does not recognise;
  \<open>recognised\<close> is the set of functions it does.
\<close>

definition InvalidFunctionError_cls :: pyclass where
  "InvalidFunctionError_cls = PyClass ''inquire.exceptions.InvalidFunctionError'' [Exception_cls]"

definition BamlManager_verify_function ::
  "(baml_function \<Rightarrow> bool) \<Rightarrow> baml_manager_state \<Rightarrow> baml_function \<Rightarrow> pyexc + bool" where
  "BamlManager_verify_function recognised m f =
     (if recognised f then Inr True
      else Inl (PyExc InvalidFunctionError_cls (''not a BAML function: '' @ fn_name f) None))"

definition BamlManager_ops ::
  "pyexc option \<Rightarrow> (baml_function \<Rightarrow> bool) \<Rightarrow> baml_manager_state manager_ops" where
  "BamlManager_ops setup recognised =
     \<lparr>mgr_init = BamlManager_init setup,
      mgr_verify_function = BamlManager_verify_function recognised\<rparr>"

section \<open>Example inputs\<close>

definition SchemaA :: pyclass where
  "SchemaA = PyClass ''baml_client.types.SchemaA'' [object_cls]"


definition an_A :: pyval where
  "an_A = PyInstance SchemaA [(''name'', ''X'')]"


definition good_extractor :: baml_function where
  "good_extractor = \<lparr>fn_name = ''ExtractA'', fn_call = (\<lambda>text. Inr an_A)\<rparr>"


definition echo_extractor :: baml_function where
  "echo_extractor = \<lparr>fn_name = ''Echo'', fn_call = (\<lambda>text. Inr (PyStr text))\<rparr>"

definition boom :: pyexc where
  "boom = PyExc RuntimeError_cls ''boom'' None"

definition boom_extractor :: baml_function where
  "boom_extractor = \<lparr>fn_name = ''ExtractBoom'', fn_call = (\<lambda>text. Inl boom)\<rparr>"



definition default_config :: research_config where
  "default_config = \<lparr>baml_dir = PyPath ''/work/baml_schemas'', settings = Map.empty\<rparr>"

definition ready_ops :: "baml_manager_state manager_ops" where
  "ready_ops = BamlManager_ops None (\<lambda>f. True)"


definition a_researcher :: "baml_manager_state researcher" where
  "a_researcher = \<lparr>config = default_config, baml_manager = BamlManager (baml_dir default_config)\<rparr>"



definition an_environment :: "baml_manager_state environment" where
  "an_environment =
     \<lparr>defaults = default_config, new_BamlManager = BamlManager,
      validate_or_raise = (\<lambda>c. None), manager = ready_ops\<rparr>"

section \<open>The steps of a run\<close>




lemma research_body_extraction:
  "mgr_init ops (baml_manager self) = (None, m) \<Longrightarrow> mgr_verify_function ops m f = Inr ok \<Longrightarrow>
   backend i = Inr t \<Longrightarrow>
   research_body backend ops self i S f =
     \<lparr>outcome =
        (case fn_call f t of
           Inl e \<Rightarrow>
             if caught_by_except_Exception e
             then Inl (PyExc ExtractionError_cls (''BAML extraction failed: '' @ exc_str e) (Some e))
             else Inl e
         | Inr result \<Rightarrow>
             if \<not> isinstance result S
             then Inl (PyExc ExtractionError_cls
                        (''BAML function returned '' @ class_str (type_of result)
                         @ '', expected '' @ class_str S) None)
             else Inr result),
      researcher_after = self\<lparr>baml_manager := m\<rparr>,
      calls = [InitCalled, VerifyFunctionCalled (fn_name f), RunResearchCalled i,
               BamlFunctionCalled t]\<rparr>"
  by (simp add: research_body_def split: sum.splits)

text \<open>The BAML function is called exactly when steps 1 to 3 return, and then on the backend's text.\<close>

lemma baml_function_called_iff:
  "BamlFunctionCalled t \<in> set (calls (research_body backend ops self i S f)) \<longleftrightarrow>
   (\<exists>m ok. mgr_init ops (baml_manager self) = (None, m) \<and>
            mgr_verify_function ops m f = Inr ok \<and> backend i = Inr t)"
  by (auto simp: research_body_def Let_def split: prod.splits option.splits sum.splits)

lemma Researcher_research_called:
  assumes "BamlFunctionCalled t \<in> set (calls (Researcher_research ops self i S f))"
  obtains m ok where "mgr_init ops (baml_manager self) = (None, m)"
    and "mgr_verify_function ops m f = Inr ok" and "t = run_research i"
  using assms unfolding Researcher_research_def baml_function_called_iff by auto

text \<open>The example manager is ready after its first \<open>init\<close> and recognises every function.\<close>

lemma ready_ops_init:
  "mgr_init ready_ops (baml_manager a_researcher) =
     (None, \<lparr>mgr_dir = PyPath ''/work/baml_schemas'', initialized = True, setups = 1\<rparr>)"
  by (simp add: ready_ops_def BamlManager_ops_def BamlManager_init_def a_researcher_def
      BamlManager_def default_config_def)

lemma ready_ops_verify: "mgr_verify_function ready_ops m f = Inr True"
  by (simp add: ready_ops_def BamlManager_ops_def BamlManager_verify_function_def)


lemma an_A_is_SchemaA: "isinstance an_A SchemaA"
  by (simp add: isinstance_def an_A_def SchemaA_def)





section \<open>The claims\<close>








text \<open>
  C4. The research backend step produces exactly \<open>"[Research output for: " + s + "]"\<close>
  for the instructions \<open>s\<close>: a function of \<open>s\<close> alone, so two calls with the same
  instructions give the same text. This is the value passed to the extractor: whenever the
  extractor is called it is called on it; it is called, once and last, whenever
  initialization and verification return; and what \<open>research\<close> then returns or raises is
  decided by what the extractor does on that very text.
\<close>

theorem research_text_is_the_template:
  "run_research s = ''[Research output for: '' @ s @ '']''
   \<and> (\<forall>t. BamlFunctionCalled t \<in> set (calls (Researcher_research ops self s S f))
          \<longrightarrow> t = ''[Research output for: '' @ s @ '']'')
   \<and> (\<forall>m ok. mgr_init ops (baml_manager self) = (None, m)
              \<and> mgr_verify_function ops m f = Inr ok
          \<longrightarrow> calls (Researcher_research ops self s S f) =
                [InitCalled, VerifyFunctionCalled (fn_name f), RunResearchCalled s,
                 BamlFunctionCalled (''[Research output for: '' @ s @ '']'')])
   \<and> (\<forall>m ok. mgr_init ops (baml_manager self) = (None, m)
              \<and> mgr_verify_function ops m f = Inr ok
          \<longrightarrow> outcome (Researcher_research ops self s S f) =
                (case fn_call f (''[Research output for: '' @ s @ '']'') of
                   Inl e \<Rightarrow>
                     if caught_by_except_Exception e
                     then Inl (PyExc ExtractionError_cls
                                (''BAML extraction failed: '' @ exc_str e) (Some e))
                     else Inl e
                 | Inr result \<Rightarrow>
                     if \<not> isinstance result S
                     then Inl (PyExc ExtractionError_cls
                                (''BAML function returned '' @ class_str (type_of result)
                                 @ '', expected '' @ class_str S) None)
                     else Inr result))"
proof (intro conjI allI impI)
  show "run_research s = ''[Research output for: '' @ s @ '']''"
    by (simp add: run_research_def)
next
  fix t
  assume "BamlFunctionCalled t \<in> set (calls (Researcher_research ops self s S f))"
  then have "t = run_research s"
    by (rule Researcher_research_called)
  then show "t = ''[Research output for: '' @ s @ '']''"
    by (simp add: run_research_def)
next
  fix m ok
  assume "mgr_init ops (baml_manager self) = (None, m) \<and> mgr_verify_function ops m f = Inr ok"
  then show "calls (Researcher_research ops self s S f) =
      [InitCalled, VerifyFunctionCalled (fn_name f), RunResearchCalled s,
       BamlFunctionCalled (''[Research output for: '' @ s @ '']'')]"
    by (simp add: Researcher_research_def research_body_extraction run_research_def)
next
  fix m ok
  assume "mgr_init ops (baml_manager self) = (None, m) \<and> mgr_verify_function ops m f = Inr ok"
  then have steps: "mgr_init ops (baml_manager self) = (None, m)"
    "mgr_verify_function ops m f = Inr ok"
    by simp_all
  have "research_body (\<lambda>instructions. Inr (run_research instructions)) ops self s S f =
      \<lparr>outcome =
         (case fn_call f (run_research s) of
            Inl e \<Rightarrow>
              if caught_by_except_Exception e
              then Inl (PyExc ExtractionError_cls (''BAML extraction failed: '' @ exc_str e) (Some e))
              else Inl e
          | Inr result \<Rightarrow>
              if \<not> isinstance result S
              then Inl (PyExc ExtractionError_cls
                         (''BAML function returned '' @ class_str (type_of result)
                          @ '', expected '' @ class_str S) None)
              else Inr result),
       researcher_after = self\<lparr>baml_manager := m\<rparr>,
       calls = [InitCalled, VerifyFunctionCalled (fn_name f), RunResearchCalled s,
                BamlFunctionCalled (run_research s)]\<rparr>"
    by (rule research_body_extraction [OF steps refl])
  then show "outcome (Researcher_research ops self s S f) =
      (case fn_call f (''[Research output for: '' @ s @ '']'') of
         Inl e \<Rightarrow>
           if caught_by_except_Exception e
           then Inl (PyExc ExtractionError_cls (''BAML extraction failed: '' @ exc_str e) (Some e))
           else Inl e
       | Inr result \<Rightarrow>
           if \<not> isinstance result S
           then Inl (PyExc ExtractionError_cls
                      (''BAML function returned '' @ class_str (type_of result)
                       @ '', expected '' @ class_str S) None)
           else Inr result)"
    by (simp add: Researcher_research_def run_research_def)
qed

text \<open>
  An extractor that returns the text it is passed: \<open>research\<close> returns the template text,
  so the extractor was passed it.
\<close>

theorem research_text_is_the_template_witness:
  "run_research ''find X'' = ''[Research output for: find X]''
   \<and> mgr_init ready_ops (baml_manager a_researcher) =
       (None, \<lparr>mgr_dir = PyPath ''/work/baml_schemas'', initialized = True, setups = 1\<rparr>)
   \<and> mgr_verify_function ready_ops
        \<lparr>mgr_dir = PyPath ''/work/baml_schemas'', initialized = True, setups = 1\<rparr>
        echo_extractor = Inr True
   \<and> calls (Researcher_research ready_ops a_researcher ''find X'' str_cls echo_extractor) =
       [InitCalled, VerifyFunctionCalled ''Echo'', RunResearchCalled ''find X'',
        BamlFunctionCalled ''[Research output for: find X]'']
   \<and> outcome (Researcher_research ready_ops a_researcher ''find X'' str_cls echo_extractor) =
       Inr (PyStr ''[Research output for: find X]'')"
proof -
  note t = research_text_is_the_template
    [of "''find X''" ready_ops a_researcher str_cls echo_extractor]
  have tmpl: "run_research ''find X'' = ''[Research output for: find X]''"
    using t by simp
  have "calls (Researcher_research ready_ops a_researcher ''find X'' str_cls echo_extractor) =
       [InitCalled, VerifyFunctionCalled (fn_name echo_extractor), RunResearchCalled ''find X'',
        BamlFunctionCalled (''[Research output for: '' @ ''find X'' @ '']'')]"
    using t ready_ops_init ready_ops_verify by blast
  then have log: "calls (Researcher_research ready_ops a_researcher ''find X'' str_cls echo_extractor) =
       [InitCalled, VerifyFunctionCalled ''Echo'', RunResearchCalled ''find X'',
        BamlFunctionCalled ''[Research output for: find X]'']"
    by (simp add: echo_extractor_def)
  have "outcome (Researcher_research ready_ops a_researcher ''find X'' str_cls echo_extractor) =
       (case fn_call echo_extractor (''[Research output for: '' @ ''find X'' @ '']'') of
          Inl e \<Rightarrow>
            if caught_by_except_Exception e
            then Inl (PyExc ExtractionError_cls (''BAML extraction failed: '' @ exc_str e) (Some e))
            else Inl e
        | Inr result \<Rightarrow>
            if \<not> isinstance result str_cls
            then Inl (PyExc ExtractionError_cls
                       (''BAML function returned '' @ class_str (type_of result)
                        @ '', expected '' @ class_str str_cls) None)
            else Inr result)"
    using t ready_ops_init ready_ops_verify by blast
  then have out: "outcome (Researcher_research ready_ops a_researcher ''find X'' str_cls
      echo_extractor) = Inr (PyStr ''[Research output for: find X]'')"
    by (simp add: echo_extractor_def isinstance_def str_cls_def)
  from tmpl ready_ops_init ready_ops_verify log out show ?thesis
    by blast
qed

text \<open>
  C5. For all instructions, schemas and functions, the module-level \<open>research\<close> with no
  explicit config gives what constructing a default \<open>Researcher\<close> and calling its
  \<open>research\<close> gives: the same value or the same exception (that of the constructor
  included), after the same calls. An explicit empty config gives the same again.
\<close>

theorem research_function_is_default_researcher:
  "research env i S f None = default_orchestrator_research env i S f
   \<and> research env i S f (Some Map.empty) = default_orchestrator_research env i S f"
proof -
  have "Researcher_init env PyNone (Some Map.empty) = Researcher_init env PyNone None"
    by (simp add: Researcher_init_def config_or_empty_def)
  then show ?thesis
    by (simp add: research_def default_orchestrator_research_def Let_def split: sum.splits)
qed

text \<open>The default orchestrator of the example environment, and a run of it.\<close>

lemma an_environment_default_researcher:
  "Researcher_init an_environment PyNone None = Inr a_researcher"
  by (simp add: Researcher_init_def an_environment_def config_or_empty_def from_dict_def
      a_researcher_def default_config_def)

lemma good_extractor_run:
  "Researcher_research ready_ops a_researcher ''find X'' SchemaA good_extractor =
     \<lparr>outcome = Inr an_A,
      researcher_after = a_researcher
        \<lparr>baml_manager := \<lparr>mgr_dir = PyPath ''/work/baml_schemas'', initialized = True, setups = 1\<rparr>\<rparr>,
      calls = [InitCalled, VerifyFunctionCalled ''ExtractA'', RunResearchCalled ''find X'',
               BamlFunctionCalled ''[Research output for: find X]'']\<rparr>"
  using an_A_is_SchemaA
  by (simp add: Researcher_research_def
      research_body_extraction [OF ready_ops_init ready_ops_verify] good_extractor_def
      run_research_def)

theorem research_function_is_default_researcher_witness:
  "default_orchestrator_research an_environment ''find X'' SchemaA good_extractor =
     (Inr an_A, [InitCalled, VerifyFunctionCalled ''ExtractA'', RunResearchCalled ''find X'',
                 BamlFunctionCalled ''[Research output for: find X]''])
   \<and> research an_environment ''find X'' SchemaA good_extractor None =
     (Inr an_A, [InitCalled, VerifyFunctionCalled ''ExtractA'', RunResearchCalled ''find X'',
                 BamlFunctionCalled ''[Research output for: find X]''])"
proof -
  have m: "manager an_environment = ready_ops"
    by (simp add: an_environment_def)
  have d: "default_orchestrator_research an_environment ''find X'' SchemaA good_extractor =
     (Inr an_A, [InitCalled, VerifyFunctionCalled ''ExtractA'', RunResearchCalled ''find X'',
                 BamlFunctionCalled ''[Research output for: find X]''])"
    by (simp add: default_orchestrator_research_def an_environment_default_researcher m
        good_extractor_run)
  have "research an_environment ''find X'' SchemaA good_extractor None =
      default_orchestrator_research an_environment ''find X'' SchemaA good_extractor"
    by (rule research_function_is_default_researcher [THEN conjunct1])
  with d show ?thesis
    by (simp only:)
qed





text \<open>
  C7. Modelled from the spec's \<open>from_overrides\<close>: the configuration built from a mapping
  \<open>m\<close> holds every key of \<open>m\<close> with the value \<open>m\<close> gives it (any key, no validation), and
  every key absent from \<open>m\<close> keeps its built-in default.
\<close>

theorem from_dict_preserves_overrides:
  "(\<forall>k \<in> dom m. config_get (from_dict dflt m) k = m k)
   \<and> (\<forall>k. k \<notin> dom m \<longrightarrow> config_get (from_dict dflt m) k = config_get dflt k)"
  by (auto simp: config_get_def from_dict_def map_add_def split: option.splits)

theorem from_dict_preserves_overrides_witness:
  "config_get (from_dict default_config [''model'' \<mapsto> PyStr ''m1'', ''baml_dir'' \<mapsto> PyStr ''/s''])
     ''model'' = Some (PyStr ''m1'')
   \<and> config_get (from_dict default_config [''model'' \<mapsto> PyStr ''m1'']) ''baml_dir''
     = Some (PyPath ''/work/baml_schemas'')"
proof -
  let ?m = "[''model'' \<mapsto> PyStr ''m1'', ''baml_dir'' \<mapsto> PyStr ''/s'']"
  let ?n = "[''model'' \<mapsto> PyStr ''m1'']"
  have "''model'' \<in> dom ?m"
    by simp
  with from_dict_preserves_overrides [of ?m default_config]
  have "config_get (from_dict default_config ?m) ''model'' = ?m ''model''"
    by blast
  then have a: "config_get (from_dict default_config ?m) ''model'' = Some (PyStr ''m1'')"
    by simp
  have "''baml_dir'' \<notin> dom ?n"
    by simp
  with from_dict_preserves_overrides [of ?n default_config]
  have "config_get (from_dict default_config ?n) ''baml_dir'' = config_get default_config ''baml_dir''"
    by blast
  then have b: "config_get (from_dict default_config ?n) ''baml_dir''
      = Some (PyPath ''/work/baml_schemas'')"
    by (simp add: config_get_def default_config_def)
  from a b show ?thesis
    by (rule conjI)
qed

text \<open>The manager a run leaves behind is the one its \<open>init\<close> left; the configuration is untouched.\<close>

lemma research_body_manager_after:
  "baml_manager (researcher_after (research_body backend ops self i S f))
     = snd (mgr_init ops (baml_manager self))"
  by (simp add: research_body_def Let_def split: prod.splits option.splits sum.splits)

lemma research_body_config_after:
  "config (researcher_after (research_body backend ops self i S f)) = config self"
  by (simp add: research_body_def Let_def split: prod.splits option.splits sum.splits)

lemma BamlManager_init_ready:
  "initialized m \<Longrightarrow> BamlManager_init setup m = (None, m)"
  by (simp add: BamlManager_init_def)

lemma BamlManager_init_completes:
  "fst (BamlManager_init setup m) = None \<Longrightarrow>
   initialized (snd (BamlManager_init setup m))
   \<and> setups (snd (BamlManager_init setup m)) = setups m + (if initialized m then 0 else 1)"
  by (simp add: BamlManager_init_def split: if_splits option.splits)

text \<open>
  C8. Modelled from the spec's manager (uninitialized, then ready). Two calls of \<open>research\<close>
  in succession on one orchestrator, the first of which gets past "ensure ready": the
  manager is ready after the first call, which performed the setup once if the manager was
  not ready and not at all if it was; the second call's "ensure ready" is a no-op, it
  leaves the manager, its setup counter included, as the first call left it. On a fresh
  manager the two calls perform one setup. A ready manager stays ready: \<open>init\<close> has no
  transition back.
\<close>

theorem initialization_happens_once:
  assumes "fst (mgr_init (BamlManager_ops setup recognised) (baml_manager self)) = None"
  shows
    "initialized (baml_manager (researcher_after
        (Researcher_research (BamlManager_ops setup recognised) self i1 S1 f1)))
     \<and> setups (baml_manager (researcher_after
          (Researcher_research (BamlManager_ops setup recognised) self i1 S1 f1)))
         = setups (baml_manager self) + (if initialized (baml_manager self) then 0 else 1)
     \<and> baml_manager (researcher_after
          (Researcher_research (BamlManager_ops setup recognised)
             (researcher_after
                (Researcher_research (BamlManager_ops setup recognised) self i1 S1 f1))
             i2 S2 f2))
         = baml_manager (researcher_after
             (Researcher_research (BamlManager_ops setup recognised) self i1 S1 f1))
     \<and> (baml_manager self = BamlManager dir \<longrightarrow>
          setups (baml_manager (researcher_after
            (Researcher_research (BamlManager_ops setup recognised)
               (researcher_after
                  (Researcher_research (BamlManager_ops setup recognised) self i1 S1 f1))
               i2 S2 f2))) = 1)
     \<and> (\<forall>m s. initialized m \<longrightarrow> BamlManager_init s m = (None, m))"
proof -
  let ?ops = "BamlManager_ops setup recognised"
  let ?m0 = "baml_manager self"
  let ?r1 = "Researcher_research ?ops self i1 S1 f1"
  let ?m1 = "baml_manager (researcher_after ?r1)"
  let ?r2 = "Researcher_research ?ops (researcher_after ?r1) i2 S2 f2"
  let ?m2 = "baml_manager (researcher_after ?r2)"
  have init: "mgr_init ?ops = BamlManager_init setup"
    by (simp add: BamlManager_ops_def)
  have m1: "?m1 = snd (BamlManager_init setup ?m0)"
    by (simp add: Researcher_research_def research_body_manager_after init)
  have m2: "?m2 = snd (BamlManager_init setup ?m1)"
    by (simp add: Researcher_research_def research_body_manager_after init)
  from assms have "fst (BamlManager_init setup ?m0) = None"
    by (simp add: init)
  then have first: "initialized ?m1"
    "setups ?m1 = setups ?m0 + (if initialized ?m0 then 0 else 1)"
    unfolding m1 by (simp_all add: BamlManager_init_completes)
  from first(1) have second: "?m2 = ?m1"
    unfolding m2 by (simp add: BamlManager_init_ready)
  have fresh: "?m0 = BamlManager dir \<longrightarrow> setups ?m2 = 1"
    unfolding second first(2) by (simp add: BamlManager_def)
  have oneway: "\<forall>m s. initialized m \<longrightarrow> BamlManager_init s m = (None, m)"
    by (simp add: BamlManager_init_ready)
  from first second fresh oneway show ?thesis
    by blast
qed

theorem initialization_happens_once_witness:
  "fst (mgr_init (BamlManager_ops None (\<lambda>f. True)) (baml_manager a_researcher)) = None
   \<and> baml_manager a_researcher = BamlManager (PyPath ''/work/baml_schemas'')
   \<and> setups (baml_manager (researcher_after
        (Researcher_research (BamlManager_ops None (\<lambda>f. True)) a_researcher
           ''find X'' SchemaA good_extractor))) = 1
   \<and> setups (baml_manager (researcher_after
        (Researcher_research (BamlManager_ops None (\<lambda>f. True))
           (researcher_after
              (Researcher_research (BamlManager_ops None (\<lambda>f. True)) a_researcher
                 ''find X'' SchemaA good_extractor))
           ''find Y'' SchemaA boom_extractor))) = 1"
proof -
  have ok: "fst (mgr_init (BamlManager_ops None (\<lambda>f. True)) (baml_manager a_researcher)) = None"
    using ready_ops_init by (simp add: ready_ops_def)
  have fresh: "baml_manager a_researcher = BamlManager (PyPath ''/work/baml_schemas'')"
    by (simp add: a_researcher_def default_config_def)
  have start: "setups (baml_manager a_researcher) = 0" "\<not> initialized (baml_manager a_researcher)"
    by (simp_all add: fresh BamlManager_def)
  note t = initialization_happens_once
    [OF ok, of "''find X''" SchemaA good_extractor "''find Y''" SchemaA boom_extractor
       "PyPath ''/work/baml_schemas''"]
  from t start have one: "setups (baml_manager (researcher_after
        (Researcher_research (BamlManager_ops None (\<lambda>f. True)) a_researcher
           ''find X'' SchemaA good_extractor))) = 1"
    by simp
  from t fresh have two: "setups (baml_manager (researcher_after
        (Researcher_research (BamlManager_ops None (\<lambda>f. True))
           (researcher_after
              (Researcher_research (BamlManager_ops None (\<lambda>f. True)) a_researcher
                 ''find X'' SchemaA good_extractor))
           ''find Y'' SchemaA boom_extractor))) = 1"
    by blast
  from ok fresh one two show ?thesis
    by blast
qed

text \<open>
  C9, as amended. \<open>Researcher.__init__\<close> applies \<open>baml_dir\<close> exactly when it is truthy. A
  falsy value (\<open>None\<close>, or an empty \<open>str\<close>) is ignored: the orchestrator is the one built
  without it, manager and validation both on the location of the config mapping or the
  default. A truthy value replaces the location before the manager is constructed and
  before validation runs: both see it. Every \<open>Path\<close> is truthy, \<open>Path("")\<close> included.
\<close>

theorem baml_dir_overrides_when_truthy:
  "(\<not> truthy dir \<longrightarrow>
      Researcher_init env dir cfg = Researcher_init env PyNone cfg
      \<and> Researcher_init env dir cfg =
          (case validate_or_raise env (from_dict (defaults env) (config_or_empty cfg)) of
             Some e \<Rightarrow> Inl e
           | None \<Rightarrow>
               Inr \<lparr>config = from_dict (defaults env) (config_or_empty cfg),
                    baml_manager = new_BamlManager env
                      (baml_dir (from_dict (defaults env) (config_or_empty cfg)))\<rparr>))
   \<and> (truthy dir \<longrightarrow>
      Researcher_init env dir cfg =
        (case validate_or_raise env
                ((from_dict (defaults env) (config_or_empty cfg))\<lparr>baml_dir := dir\<rparr>) of
           Some e \<Rightarrow> Inl e
         | None \<Rightarrow>
             Inr \<lparr>config = (from_dict (defaults env) (config_or_empty cfg))\<lparr>baml_dir := dir\<rparr>,
                  baml_manager = new_BamlManager env dir\<rparr>))
   \<and> truthy (PyPath p) \<and> \<not> truthy PyNone \<and> \<not> truthy (PyStr [])"
  by (simp add: Researcher_init_def Let_def split: option.splits)

theorem baml_dir_overrides_when_truthy_witness:
  "truthy (PyPath ''/custom'')
   \<and> Researcher_init an_environment (PyPath ''/custom'') None =
       Inr \<lparr>config = default_config\<lparr>baml_dir := PyPath ''/custom''\<rparr>,
            baml_manager = BamlManager (PyPath ''/custom'')\<rparr>
   \<and> \<not> truthy (PyStr [])
   \<and> Researcher_init an_environment (PyStr []) None = Inr a_researcher"
proof -
  have c: "from_dict (defaults an_environment) (config_or_empty None) = default_config"
    by (simp add: from_dict_def an_environment_def config_or_empty_def default_config_def)
  have v: "validate_or_raise an_environment x = None" for x
    by (simp add: an_environment_def)
  have n: "new_BamlManager an_environment = BamlManager"
    by (simp add: an_environment_def)
  have yes: "truthy (PyPath ''/custom'')" and no: "\<not> truthy (PyStr [])"
    by simp_all
  from baml_dir_overrides_when_truthy [of "PyPath ''/custom''" an_environment None] yes
  have "Researcher_init an_environment (PyPath ''/custom'') None =
        (case validate_or_raise an_environment
                ((from_dict (defaults an_environment) (config_or_empty None))
                   \<lparr>baml_dir := PyPath ''/custom''\<rparr>) of
           Some e \<Rightarrow> Inl e
         | None \<Rightarrow>
             Inr \<lparr>config = (from_dict (defaults an_environment) (config_or_empty None))
                             \<lparr>baml_dir := PyPath ''/custom''\<rparr>,
                  baml_manager = new_BamlManager an_environment (PyPath ''/custom'')\<rparr>)"
    by blast
  then have a: "Researcher_init an_environment (PyPath ''/custom'') None =
       Inr \<lparr>config = default_config\<lparr>baml_dir := PyPath ''/custom''\<rparr>,
            baml_manager = BamlManager (PyPath ''/custom'')\<rparr>"
    by (simp add: c v n)
  from baml_dir_overrides_when_truthy [of "PyStr []" an_environment None] no
  have "Researcher_init an_environment (PyStr []) None = Researcher_init an_environment PyNone None"
    by blast
  then have b: "Researcher_init an_environment (PyStr []) None = Inr a_researcher"
    by (simp add: an_environment_default_researcher)
  from yes a no b show ?thesis
    by blast
qed

text \<open>
  C9 as stated fails at its own example: \<open>Path("")\<close> is truthy, and \<open>Researcher(Path(""))\<close>
  has \<open>Path("")\<close> as its location and its manager's, not the default that \<open>Researcher()\<close> has.
\<close>

theorem empty_path_counterexample:
  "truthy (PyPath [])
   \<and> Researcher_init an_environment (PyPath []) None =
       Inr \<lparr>config = default_config\<lparr>baml_dir := PyPath []\<rparr>,
            baml_manager = BamlManager (PyPath [])\<rparr>
   \<and> Researcher_init an_environment PyNone None =
       Inr \<lparr>config = default_config,
            baml_manager = BamlManager (PyPath ''/work/baml_schemas'')\<rparr>
   \<and> Researcher_init an_environment (PyPath []) None \<noteq> Researcher_init an_environment PyNone None"
  by (simp add: Researcher_init_def an_environment_def config_or_empty_def from_dict_def
      default_config_def BamlManager_def)




end
